theory Spec2Isabelle
  imports Complex_Main "HOL-Library.AList"
begin

section \<open>The mock forecast of \<^verbatim>\<open>frontend/src/lib/mockData.ts\<close>\<close>

text \<open>
  The embedding follows \<^verbatim>\<open>generateMockForecast\<close> line by line.

  \<^item> A JavaScript \<^verbatim>\<open>number\<close> is a \<open>real\<close>; the results of \<^verbatim>\<open>Math.round\<close> and the
    loop counter are \<open>int\<close>. Rounding error of IEEE doubles, \<^verbatim>\<open>NaN\<close> and the
    infinities are outside the model, so the arithmetic is that of the source up to
    the rounding error of doubles wherever no division by zero occurs (\<open>capacity\<close> and
    \<open>avgProcessTime\<close> different from 0).
  \<^item> The argument \<^verbatim>\<open>hours\<close> is an \<open>int\<close>: a horizon is a whole number of hours
    (the page starts with 8); the loop then runs \<open>max 0 hours\<close> times.
  \<^item> The function reads three things that are not arguments: the clock
    (\<^verbatim>\<open>new Date()\<close>, twice), the generator behind \<^verbatim>\<open>Math.random()\<close>, and the
    module-level object \<^verbatim>\<open>mockOperationalState\<close>. The clock and the generator are the
    record \<open>Env\<close>; the \<open>k\<close>-th call of \<^verbatim>\<open>Math.random()\<close> returns \<open>random env k\<close>, and
    the number of calls made so far is threaded through the loops.
  \<^item> A timestamp is the time value in milliseconds that the ISO string renders.
    \<^verbatim>\<open>Date.prototype.toISOString\<close> throws \<^verbatim>\<open>RangeError\<close> on a time value outside
    the range of \<^verbatim>\<open>Date\<close>; this is the only exception the function can raise.
  \<^item> \<^verbatim>\<open>predictions\<close> is an object used as a dictionary: an association list in
    insertion order, assignment being \<open>AList.update\<close>. That is what a JavaScript
    object does for keys that are neither integer-like (those are enumerated first, in
    numeric order) nor \<^verbatim>\<open>__proto__\<close> (which is not stored as a property); the ids of
    \<^verbatim>\<open>mockOperationalState\<close> are such keys.
  \<^item> \<open>Math_round\<close> rounds the exact value. The source rounds a double: where the exact
    value is within the rounding error of a tie (\<open>45 * 0.7 = 31.5\<close> is computed as
    \<open>31.499999999999998\<close>), it may return the other neighbour. A statement about a
    rounded field therefore bounds its distance from the unrounded value by
    \<open>1/2 + 1/1000\<close> rather than naming the integer.
\<close>

subsection \<open>Data\<close>

record WorkQueue =
  id_wq :: string
  name :: string
  workInProgress :: real
  capacity :: real
  avgProcessTime :: real
  employees :: real
  complexity :: real

record OperationalState =
  workQueues :: "WorkQueue list"
  incomingRate :: real
  timestamp_st :: int
  slaThreshold :: real

record QueuePrediction =
  workInProgress_p :: int
  utilization :: real
  bottleneckProbability :: real
  slaBreachProbability :: real
  avgWaitTime :: real
  processed :: int

record HourlyForecast =
  hour :: int
  timestamp :: int
  predictions :: "(string \<times> QueuePrediction) list"
  totalBreachRisk :: real

datatype Severity = High | Medium | Low

record ResourceChange =
  queueId_rc :: string
  employeeChange :: int

record Suggestion =
  severity :: Severity
  queue :: string
  queueId :: string
  action :: string
  impact :: string
  resourceChange :: "ResourceChange option"
  reasoning :: string

record Metadata =
  forecastHours :: int
  averageBreachRisk :: real
  peakRiskHour :: int
  peakRiskValue :: real
  resourceChangesApplied :: int
  suggestionsGenerated :: int
  simulationTimestamp :: int

record SimulationResponse =
  forecast :: "HourlyForecast list"
  suggestions :: "Suggestion list"
  metadata :: Metadata

text \<open>
  The outcome of a call. \<open>InvalidQueueState\<close>, \<open>EmptyQueueSet\<close> and \<open>InvalidHorizon\<close>
  are the error kinds of the specification; the source raises none of them.
\<close>

datatype error = InvalidQueueState | EmptyQueueSet | InvalidHorizon | RangeError

record Env =
  load_ms :: int
  now_ms :: int
  now_hours :: int
  end_ms :: int
  random :: "nat \<Rightarrow> real"

subsection \<open>Built-ins\<close>

definition Math_round :: "real \<Rightarrow> int" where
  "Math_round x = \<lfloor>x + 1 / 2\<rfloor>"

definition maxTimeValue :: int where
  "maxTimeValue = 8640000000000000"

definition toISOString :: "int \<Rightarrow> error + int" where
  "toISOString t = (if \<bar>t\<bar> \<le> maxTimeValue then Inr t else Inl RangeError)"

definition Object_values :: "(string \<times> 'v) list \<Rightarrow> 'v list" where
  "Object_values obj = map snd obj"

subsection \<open>The module-level state\<close>

definition mockOperationalState :: "int \<Rightarrow> OperationalState" where
  "mockOperationalState t =
     \<lparr> workQueues =
         [ \<lparr> id_wq = ''intake'', name = ''Case Intake'', workInProgress = 45,
             capacity = 50, avgProcessTime = 15, employees = 5, complexity = 1 \<rparr>,
           \<lparr> id_wq = ''review'', name = ''Manual Review'', workInProgress = 78,
             capacity = 60, avgProcessTime = 45, employees = 8, complexity = 2.5 \<rparr>,
           \<lparr> id_wq = ''approval'', name = ''Final Approval'', workInProgress = 23,
             capacity = 40, avgProcessTime = 30, employees = 4, complexity = 1.8 \<rparr>,
           \<lparr> id_wq = ''completion'', name = ''Case Completion'', workInProgress = 12,
             capacity = 50, avgProcessTime = 10, employees = 3, complexity = 1 \<rparr> ],
       incomingRate = 8.5,
       timestamp_st = t,
       slaThreshold = 120 \<rparr>"

subsection \<open>The forecast\<close>

text \<open>
  The body of the \<^verbatim>\<open>forEach\<close> callback: four calls of \<^verbatim>\<open>Math.random()\<close>, in the
  order utilization, breach probability, bottleneck probability, work in progress.
\<close>

definition predictQueue :: "real \<Rightarrow> (nat \<Rightarrow> real) \<Rightarrow> nat \<Rightarrow> WorkQueue \<Rightarrow> QueuePrediction" where
  "predictQueue hourFactor rnd k q =
     (let baseUtil = (workInProgress q / capacity q) * 100;
          utilization = min 100 (baseUtil * hourFactor + rnd k * 10);
          breachProb = max 0 (min 100 ((utilization - 60) * 2 + rnd (k + 1) * 15));
          bottleneckProb = max 0 (min 100 ((utilization - 50) * 1.5 + rnd (k + 2) * 10))
      in \<lparr> workInProgress_p = Math_round (workInProgress q * hourFactor + rnd (k + 3) * 10),
           utilization = utilization,
           bottleneckProbability = bottleneckProb,
           slaBreachProbability = breachProb,
           avgWaitTime = avgProcessTime q * (utilization / 50),
           processed = Math_round (employees q * (60 / avgProcessTime q) * 0.85) \<rparr>)"

fun forEachQueue ::
  "real \<Rightarrow> (nat \<Rightarrow> real) \<Rightarrow> WorkQueue list \<Rightarrow> nat \<Rightarrow> (string \<times> QueuePrediction) list
     \<Rightarrow> (string \<times> QueuePrediction) list \<times> nat" where
  "forEachQueue hourFactor rnd [] k preds = (preds, k)"
| "forEachQueue hourFactor rnd (q # qs) k preds =
     forEachQueue hourFactor rnd qs (k + 4)
       (AList.update (id_wq q) (predictQueue hourFactor rnd k q) preds)"

text \<open>
  One iteration of the \<^verbatim>\<open>for\<close> loop, from the count \<open>k\<close> of random numbers drawn so
  far: the entry pushed (or the exception of \<^verbatim>\<open>toISOString\<close>) and the new count.
\<close>

definition loopBody ::
  "OperationalState \<Rightarrow> Env \<Rightarrow> int \<Rightarrow> nat \<Rightarrow> error + (HourlyForecast \<times> nat)" where
  "loopBody st env i k =
     (let hourFactor = sin (real_of_int (i + now_hours env) * pi / 12) * 0.3 + 1;
          (preds, k') = forEachQueue hourFactor (random env) (workQueues st) k []
      in case toISOString (now_ms env + (i + 1) * 3600000) of
           Inl e \<Rightarrow> Inl e
         | Inr ts \<Rightarrow>
             Inr (\<lparr> hour = i + 1,
                    timestamp = ts,
                    predictions = preds,
                    totalBreachRisk =
                      foldl (\<lambda>sum p. sum + slaBreachProbability p) 0 (Object_values preds) / 4 \<rparr>,
                  k'))"

function forecastLoop ::
  "OperationalState \<Rightarrow> Env \<Rightarrow> int \<Rightarrow> int \<Rightarrow> nat \<Rightarrow> HourlyForecast list
     \<Rightarrow> error + HourlyForecast list" where
  "forecastLoop st env hours i k acc =
     (if i < hours then
        (case loopBody st env i k of
           Inl e \<Rightarrow> Inl e
         | Inr (entry, k') \<Rightarrow> forecastLoop st env hours (i + 1) k' (acc @ [entry]))
      else Inr acc)"
  by pat_completeness auto
termination
  by (relation "measure (\<lambda>(st, env, hours, i, k, acc). nat (hours - i))") auto

declare forecastLoop.simps [simp del]

definition mockSuggestions :: "Suggestion list" where
  "mockSuggestions =
     [ \<lparr> severity = High, queue = ''Manual Review'', queueId = ''review'',
         action = ''Add 2 employee(s)'', impact = ''Reduce breach risk by ~42%'',
         resourceChange = Some \<lparr> queueId_rc = ''review'', employeeChange = 2 \<rparr>,
         reasoning = ''Current workload (78 cases) exceeds safe capacity with high breach probability'' \<rparr>,
       \<lparr> severity = Medium, queue = ''Final Approval'', queueId = ''approval'',
         action = ''Monitor closely and prepare to add resources'',
         impact = ''Prevent bottleneck formation'',
         resourceChange = None,
         reasoning = ''Early indicators of bottleneck formation detected'' \<rparr>,
       \<lparr> severity = Low, queue = ''Case Completion'', queueId = ''completion'',
         action = ''Reallocate 1-2 employee(s)'', impact = ''Free resources without risk increase'',
         resourceChange = Some \<lparr> queueId_rc = ''completion'', employeeChange = - 1 \<rparr>,
         reasoning = ''Low utilization (24%) indicates spare capacity'' \<rparr> ]"

text \<open>
  \<open>generateMockForecastOn st\<close> is the function body with the module-level object it reads
  as a parameter; \<open>generateMockForecast\<close> is the function of the source.
\<close>

definition generateMockForecastOn ::
  "OperationalState \<Rightarrow> Env \<Rightarrow> int \<Rightarrow> error + SimulationResponse" where
  "generateMockForecastOn st env hours =
     (case forecastLoop st env hours 0 0 [] of
        Inl e \<Rightarrow> Inl e
      | Inr fc \<Rightarrow>
          (case toISOString (end_ms env) of
             Inl e \<Rightarrow> Inl e
           | Inr ts \<Rightarrow>
               Inr \<lparr> forecast = fc,
                     suggestions = mockSuggestions,
                     metadata =
                       \<lparr> forecastHours = hours,
                         averageBreachRisk = 32.5,
                         peakRiskHour = 4,
                         peakRiskValue = 58.2,
                         resourceChangesApplied = 0,
                         suggestionsGenerated = 3,
                         simulationTimestamp = ts \<rparr> \<rparr>))"

definition generateMockForecast :: "Env \<Rightarrow> int \<Rightarrow> error + SimulationResponse" where
  "generateMockForecast env hours =
     generateMockForecastOn (mockOperationalState (load_ms env)) env hours"

subsection \<open>Closed forms used in the proofs\<close>

text \<open>
  The factor, the dictionary and the entry of iteration \<open>i\<close> of the loop, written
  without the loop: iteration \<open>i\<close> starts after \<open>4 * length (workQueues st) * i\<close> random
  numbers. \<open>datesInRange\<close> says that the two clock readings and the last instant of the
  forecast are time values of \<^verbatim>\<open>Date\<close>, so that \<^verbatim>\<open>toISOString\<close> does not throw.
\<close>

definition hourFactorAt :: "Env \<Rightarrow> int \<Rightarrow> real" where
  "hourFactorAt env i = sin (real_of_int (i + now_hours env) * pi / 12) * 0.3 + 1"

definition predictionsAt :: "OperationalState \<Rightarrow> Env \<Rightarrow> int \<Rightarrow> (string \<times> QueuePrediction) list" where
  "predictionsAt st env i =
     fst (forEachQueue (hourFactorAt env i) (random env) (workQueues st)
            (4 * length (workQueues st) * nat i) [])"

definition entryAt :: "OperationalState \<Rightarrow> Env \<Rightarrow> int \<Rightarrow> HourlyForecast" where
  "entryAt st env i =
     \<lparr> hour = i + 1,
       timestamp = now_ms env + (i + 1) * 3600000,
       predictions = predictionsAt st env i,
       totalBreachRisk =
         foldl (\<lambda>sum p. sum + slaBreachProbability p) 0 (Object_values (predictionsAt st env i)) / 4 \<rparr>"

definition datesInRange :: "Env \<Rightarrow> int \<Rightarrow> bool" where
  "datesInRange env hours \<longleftrightarrow>
     \<bar>now_ms env\<bar> \<le> maxTimeValue \<and> \<bar>now_ms env + hours * 3600000\<bar> \<le> maxTimeValue
       \<and> \<bar>end_ms env\<bar> \<le> maxTimeValue"

definition mockMetadata :: "int \<Rightarrow> int \<Rightarrow> Metadata" where
  "mockMetadata hours ts =
     \<lparr> forecastHours = hours, averageBreachRisk = 32.5, peakRiskHour = 4,
       peakRiskValue = 58.2, resourceChangesApplied = 0, suggestionsGenerated = 3,
       simulationTimestamp = ts \<rparr>"

text \<open>
  The state in which queue number \<open>j\<close> has the work in progress \<open>w\<close> and everything
  else is as in \<open>st\<close>.
\<close>

definition raiseWorkInProgress :: "OperationalState \<Rightarrow> nat \<Rightarrow> real \<Rightarrow> OperationalState" where
  "raiseWorkInProgress st j w =
     st\<lparr> workQueues := (workQueues st)[j := (workQueues st ! j)\<lparr> workInProgress := w \<rparr>] \<rparr>"

subsection \<open>Concrete environments\<close>

text \<open>
  A clock at time value 0 (hour 0 of the day) and a generator that always returns 0.
\<close>

definition envZero :: Env where
  "envZero = \<lparr> load_ms = 0, now_ms = 0, now_hours = 0, end_ms = 0, random = (\<lambda>k. 0) \<rparr>"

text \<open>
  The same clock with a generator that always returns \<open>1/2\<close>, and with one that
  returns 0 sixteen times and \<open>1/2\<close> from then on.
\<close>

definition envHalf :: Env where
  "envHalf = \<lparr> load_ms = 0, now_ms = 0, now_hours = 0, end_ms = 0, random = (\<lambda>k. 1 / 2) \<rparr>"

definition envLate :: Env where
  "envLate = \<lparr> load_ms = 0, now_ms = 0, now_hours = 0, end_ms = 0,
               random = (\<lambda>k. if k < 16 then 0 else 1 / 2) \<rparr>"

text \<open>
  A clock at two o'clock (time value 7200000, hour 2 of the day) with a generator that
  always returns 0.
\<close>

definition envTwo :: Env where
  "envTwo = \<lparr> load_ms = 0, now_ms = 7200000, now_hours = 2, end_ms = 7200000,
              random = (\<lambda>k. 0) \<rparr>"

subsection \<open>What the specification asks of the metadata\<close>

text \<open>
  These definitions follow the words of the specification, not the source: the peak
  value is the maximum of the hourly total breach risks, the peak hour the hour of the
  first entry that attains it.
\<close>

definition spec_peakRiskValue :: "HourlyForecast list \<Rightarrow> real" where
  "spec_peakRiskValue fc = Max (set (map totalBreachRisk fc))"

definition spec_peakRiskHour :: "HourlyForecast list \<Rightarrow> int option" where
  "spec_peakRiskHour fc =
     map_option hour (find (\<lambda>hf. totalBreachRisk hf = spec_peakRiskValue fc) fc)"

subsection \<open>What the specification asks of the load projector\<close>

text \<open>
  Again from the words of the specification: the demand-intensity factor at the hour
  offset \<open>h\<close> and the projected work in progress for a given noise.
\<close>

definition spec_intensityFactor :: "int \<Rightarrow> int \<Rightarrow> real" where
  "spec_intensityFactor currentHourOfDay h =
     1 + 0.3 * sin (pi * real_of_int (h + currentHourOfDay) / 12)"

definition spec_projectedWIP :: "WorkQueue \<Rightarrow> int \<Rightarrow> int \<Rightarrow> real \<Rightarrow> int" where
  "spec_projectedWIP q currentHourOfDay h noise =
     Math_round (workInProgress q * spec_intensityFactor currentHourOfDay h + noise)"


section \<open>Properties of the loops\<close>

lemma forEachQueue_count:
  "snd (forEachQueue hf rnd qs k preds) = k + 4 * length qs"
  by (induction qs arbitrary: k preds) simp_all

lemma loopBody_Inr:
  assumes "\<bar>now_ms env + (i + 1) * 3600000\<bar> \<le> maxTimeValue"
    and "k = 4 * length (workQueues st) * nat i"
  shows "loopBody st env i k = Inr (entryAt st env i, k + 4 * length (workQueues st))"
proof -
  obtain ps k' where fe: "forEachQueue (hourFactorAt env i) (random env) (workQueues st) k [] = (ps, k')"
    by (cases "forEachQueue (hourFactorAt env i) (random env) (workQueues st) k []")
  have k': "k' = k + 4 * length (workQueues st)"
    using forEachQueue_count [of "hourFactorAt env i" "random env" "workQueues st" k "[]"] fe by simp
  have ps: "ps = predictionsAt st env i"
    using fe assms(2) by (simp add: predictionsAt_def)
  show ?thesis
    using assms(1) fe [unfolded hourFactorAt_def] k' ps [symmetric]
    by (simp add: loopBody_def toISOString_def entryAt_def)
qed

lemma loopBody_Inl:
  assumes "\<not> \<bar>now_ms env + (i + 1) * 3600000\<bar> \<le> maxTimeValue"
  shows "loopBody st env i k = Inl RangeError"
  using assms by (simp add: loopBody_def toISOString_def split: prod.splits)

lemma forecastLoop_Inr:
  assumes "0 \<le> i" and "k = 4 * length (workQueues st) * nat i"
    and "\<forall>j. i \<le> j \<and> j < hours \<longrightarrow> \<bar>now_ms env + (j + 1) * 3600000\<bar> \<le> maxTimeValue"
  shows "forecastLoop st env hours i k acc = Inr (acc @ map (entryAt st env) [i..hours - 1])"
  using assms
proof (induction st env hours i k acc rule: forecastLoop.induct)
  case (1 st env hours i k acc)
  show ?case
  proof (cases "i < hours")
    case False
    then show ?thesis by (simp add: forecastLoop.simps [of st env hours i k acc])
  next
    case True
    have r: "\<bar>now_ms env + (i + 1) * 3600000\<bar> \<le> maxTimeValue"
      using "1.prems"(3) True by simp
    have lb: "loopBody st env i k = Inr (entryAt st env i, k + 4 * length (workQueues st))"
      using loopBody_Inr [OF r "1.prems"(2)] .
    have k2: "k + 4 * length (workQueues st) = 4 * length (workQueues st) * nat (i + 1)"
      using "1.prems"(1,2) by (simp add: nat_add_distrib algebra_simps)
    have ih: "forecastLoop st env hours (i + 1) (k + 4 * length (workQueues st)) (acc @ [entryAt st env i])
                = Inr ((acc @ [entryAt st env i]) @ map (entryAt st env) [i + 1..hours - 1])"
      using "1.IH" [OF True lb refl _ k2] "1.prems"(1,3) by simp
    have up: "[i..hours - 1] = i # [i + 1..hours - 1]"
      using True by (simp add: upto_rec1)
    show ?thesis
      using True lb ih up by (simp add: forecastLoop.simps [of st env hours i k acc])
  qed
qed

lemma loopBody_error:
  "loopBody st env i k = Inl e \<Longrightarrow> e = RangeError"
  by (auto simp: loopBody_def toISOString_def split: prod.splits if_splits)

lemma forecastLoop_error:
  "forecastLoop st env hours i k acc = Inl e \<Longrightarrow> e = RangeError"
proof (induction st env hours i k acc rule: forecastLoop.induct)
  case (1 st env hours i k acc)
  show ?case
  proof (cases "i < hours")
    case False
    with "1.prems" show ?thesis by (simp add: forecastLoop.simps [of st env hours i k acc])
  next
    case True
    show ?thesis
    proof (cases "loopBody st env i k")
      case (Inl e')
      with True "1.prems" loopBody_error [of st env i k e'] show ?thesis
        by (simp add: forecastLoop.simps [of st env hours i k acc])
    next
      case (Inr p)
      obtain en k' where p: "p = (en, k')" by (cases p)
      show ?thesis
        using "1.IH" [OF True Inr [unfolded p] refl] "1.prems" True Inr p
        by (simp add: forecastLoop.simps [of st env hours i k acc])
    qed
  qed
qed

lemma forecastLoop_Inr_shape:
  assumes "forecastLoop st env hours i k acc = Inr fc"
    and "0 \<le> i" and "k = 4 * length (workQueues st) * nat i"
  shows "fc = acc @ map (entryAt st env) [i..hours - 1]"
  using assms
proof (induction st env hours i k acc rule: forecastLoop.induct)
  case (1 st env hours i k acc)
  show ?case
  proof (cases "i < hours")
    case False
    with "1.prems"(1) show ?thesis by (simp add: forecastLoop.simps [of st env hours i k acc])
  next
    case True
    have r: "\<bar>now_ms env + (i + 1) * 3600000\<bar> \<le> maxTimeValue"
    proof (rule ccontr)
      assume n: "\<not> \<bar>now_ms env + (i + 1) * 3600000\<bar> \<le> maxTimeValue"
      show False
        using "1.prems"(1) True loopBody_Inl [OF n, of st k]
        by (simp add: forecastLoop.simps [of st env hours i k acc])
    qed
    have lb: "loopBody st env i k = Inr (entryAt st env i, k + 4 * length (workQueues st))"
      using loopBody_Inr [OF r "1.prems"(3)] .
    have k2: "k + 4 * length (workQueues st) = 4 * length (workQueues st) * nat (i + 1)"
      using "1.prems"(2,3) by (simp add: nat_add_distrib algebra_simps)
    have nx: "forecastLoop st env hours (i + 1) (k + 4 * length (workQueues st)) (acc @ [entryAt st env i]) = Inr fc"
      using "1.prems"(1) True lb
      by (simp add: forecastLoop.simps [of st env hours i k acc])
    have ih: "fc = (acc @ [entryAt st env i]) @ map (entryAt st env) [i + 1..hours - 1]"
      using "1.IH" [OF True lb refl nx _ k2] "1.prems"(2) by simp
    have up: "[i..hours - 1] = i # [i + 1..hours - 1]"
      using True by (simp add: upto_rec1)
    show ?thesis
      using ih up by simp
  qed
qed

lemma datesInRange_step:
  assumes "datesInRange env hours" and "0 \<le> j" and "j < hours"
  shows "\<bar>now_ms env + (j + 1) * 3600000\<bar> \<le> maxTimeValue"
proof -
  have "now_ms env \<le> now_ms env + (j + 1) * 3600000"
    using assms(2) by simp
  moreover have "now_ms env + (j + 1) * 3600000 \<le> now_ms env + hours * 3600000"
    using assms(3) by simp
  ultimately show ?thesis
    using assms(1) unfolding datesInRange_def by linarith
qed

lemma generateMockForecastOn_returns:
  assumes "datesInRange env hours"
  shows "generateMockForecastOn st env hours =
           Inr \<lparr> forecast = map (entryAt st env) [0..hours - 1],
                 suggestions = mockSuggestions,
                 metadata = mockMetadata hours (end_ms env) \<rparr>"
proof -
  have rng: "\<forall>j. 0 \<le> j \<and> j < hours \<longrightarrow> \<bar>now_ms env + (j + 1) * 3600000\<bar> \<le> maxTimeValue"
    using datesInRange_step [OF assms] by blast
  have "forecastLoop st env hours 0 0 [] = Inr ([] @ map (entryAt st env) [0..hours - 1])"
    by (rule forecastLoop_Inr [OF _ _ rng]) simp_all
  moreover have "toISOString (end_ms env) = Inr (end_ms env)"
    using assms by (simp add: toISOString_def datesInRange_def)
  ultimately show ?thesis
    by (simp add: generateMockForecastOn_def mockMetadata_def)
qed

lemma generateMockForecastOn_Inr_shape:
  assumes "generateMockForecastOn st env hours = Inr r"
  shows "r = \<lparr> forecast = map (entryAt st env) [0..hours - 1],
               suggestions = mockSuggestions,
               metadata = mockMetadata hours (end_ms env) \<rparr>"
proof -
  obtain fc where fc: "forecastLoop st env hours 0 0 [] = Inr fc"
    using assms by (cases "forecastLoop st env hours 0 0 []") (simp_all add: generateMockForecastOn_def)
  have shape: "fc = map (entryAt st env) [0..hours - 1]"
    using forecastLoop_Inr_shape [OF fc] by simp
  show ?thesis
  proof (cases "\<bar>end_ms env\<bar> \<le> maxTimeValue")
    case True
    with assms fc shape show ?thesis
      by (simp add: generateMockForecastOn_def mockMetadata_def toISOString_def)
  next
    case False
    with assms fc show ?thesis
      by (simp add: generateMockForecastOn_def toISOString_def)
  qed
qed

lemma generateMockForecastOn_error:
  assumes "generateMockForecastOn st env hours = Inl e"
  shows "e = RangeError"
proof (cases "forecastLoop st env hours 0 0 []")
  case (Inl e')
  with assms forecastLoop_error [OF Inl] show ?thesis
    by (simp add: generateMockForecastOn_def)
next
  case (Inr fc)
  with assms show ?thesis
    by (simp add: generateMockForecastOn_def toISOString_def split: if_splits)
qed

lemma upto_shift: "map (\<lambda>i. i + 1) [0..h - 1] = [1..h]"
  by (rule nth_equalityI) simp_all


section \<open>Properties of one iteration\<close>

lemma update_fresh:
  "k \<notin> fst ` set ps \<Longrightarrow> AList.update k v ps = ps @ [(k, v)]"
  by (induction ps) auto

lemma forEachQueue_distinct:
  assumes "distinct (map id_wq qs)" and "set (map id_wq qs) \<inter> fst ` set preds = {}"
  shows "forEachQueue hf rnd qs k preds =
           (preds @ map (\<lambda>j. (id_wq (qs ! j), predictQueue hf rnd (k + 4 * j) (qs ! j))) [0..<length qs],
            k + 4 * length qs)"
  using assms
proof (induction qs arbitrary: k preds)
  case Nil
  then show ?case by simp
next
  case (Cons q qs)
  have fresh: "id_wq q \<notin> fst ` set preds"
    using Cons.prems(2) by auto
  let ?preds = "preds @ [(id_wq q, predictQueue hf rnd k q)]"
  have d: "distinct (map id_wq qs)"
    using Cons.prems(1) by simp
  have disj: "set (map id_wq qs) \<inter> fst ` set ?preds = {}"
    using Cons.prems by auto
  have "forEachQueue hf rnd (q # qs) k preds = forEachQueue hf rnd qs (k + 4) ?preds"
    by (simp add: update_fresh [OF fresh])
  also have "\<dots> = (?preds @ map (\<lambda>j. (id_wq (qs ! j), predictQueue hf rnd (k + 4 + 4 * j) (qs ! j))) [0..<length qs],
                    k + 4 + 4 * length qs)"
    by (rule Cons.IH [OF d disj])
  finally show ?case
    by (simp add: map_upt_Suc add.assoc del: upt_Suc)
qed

lemma predictionsAt_distinct:
  assumes "distinct (map id_wq (workQueues st))"
  shows "predictionsAt st env i =
           map (\<lambda>j. (id_wq (workQueues st ! j),
                      predictQueue (hourFactorAt env i) (random env)
                        (4 * length (workQueues st) * nat i + 4 * j) (workQueues st ! j)))
               [0..<length (workQueues st)]"
  using forEachQueue_distinct [OF assms, of "[]"]
  by (simp add: predictionsAt_def)

lemma update_set_subset:
  "set (AList.update k v ps) \<subseteq> insert (k, v) (set ps)"
  by (induction ps) auto

lemma forEachQueue_all:
  assumes "\<forall>(a, p) \<in> set preds. P p" and "\<forall>q \<in> set qs. \<forall>k. P (predictQueue hf rnd k q)"
  shows "\<forall>(a, p) \<in> set (fst (forEachQueue hf rnd qs k preds)). P p"
  using assms
proof (induction qs arbitrary: k preds)
  case Nil
  then show ?case by simp
next
  case (Cons q qs)
  have "\<forall>(a, p) \<in> set (AList.update (id_wq q) (predictQueue hf rnd k q) preds). P p"
    using Cons.prems update_set_subset [of "id_wq q" "predictQueue hf rnd k q" preds] by auto
  then show ?case
    using Cons.IH Cons.prems(2) by simp
qed

lemma hourFactorAt_bounds: "7 / 10 \<le> hourFactorAt env i \<and> hourFactorAt env i \<le> 13 / 10"
proof -
  have "- 1 \<le> sin (real_of_int (i + now_hours env) * pi / 12)"
    and "sin (real_of_int (i + now_hours env) * pi / 12) \<le> 1"
    by simp_all
  then show ?thesis
    unfolding hourFactorAt_def by linarith
qed

lemma predictQueue_bounds:
  assumes "0 \<le> hf" and "0 \<le> rnd k" and "0 \<le> workInProgress q" and "0 < capacity q"
  shows "0 \<le> utilization (predictQueue hf rnd k q) \<and> utilization (predictQueue hf rnd k q) \<le> 100
       \<and> 0 \<le> slaBreachProbability (predictQueue hf rnd k q)
       \<and> slaBreachProbability (predictQueue hf rnd k q) \<le> 100
       \<and> 0 \<le> bottleneckProbability (predictQueue hf rnd k q)
       \<and> bottleneckProbability (predictQueue hf rnd k q) \<le> 100"
proof -
  have "0 \<le> workInProgress q / capacity q * 100 * hf"
    using assms by simp
  then have "0 \<le> workInProgress q / capacity q * 100 * hf + rnd k * 10"
    using assms(2) by simp
  then show ?thesis
    by (simp add: predictQueue_def Let_def)
qed

lemma foldl_breach_sum:
  "foldl (\<lambda>sum p. sum + slaBreachProbability p) a ps = a + sum_list (map slaBreachProbability ps)"
  by (induction ps arbitrary: a) simp_all

lemma totalBreachRisk_entryAt:
  "totalBreachRisk (entryAt st env i) =
     sum_list (map (slaBreachProbability \<circ> snd) (predictions (entryAt st env i))) / 4"
  by (simp add: entryAt_def foldl_breach_sum Object_values_def)


lemma predictions_entryAt: "predictions (entryAt st env i) = predictionsAt st env i"
  by (simp add: entryAt_def)

section \<open>Dependence on the random numbers\<close>

lemma predictQueue_cong:
  assumes "\<forall>m. k \<le> m \<and> m < k + 4 \<longrightarrow> r1 m = r2 m"
  shows "predictQueue hf r1 k q = predictQueue hf r2 k q"
proof -
  have "r1 k = r2 k" "r1 (k + 1) = r2 (k + 1)" "r1 (k + 2) = r2 (k + 2)" "r1 (k + 3) = r2 (k + 3)"
    using assms by simp_all
  then show ?thesis
    by (simp add: predictQueue_def)
qed

lemma forEachQueue_cong:
  assumes "\<forall>m. k \<le> m \<and> m < k + 4 * length qs \<longrightarrow> r1 m = r2 m"
  shows "forEachQueue hf r1 qs k preds = forEachQueue hf r2 qs k preds"
  using assms
proof (induction qs arbitrary: k preds)
  case Nil
  show ?case by simp
next
  case (Cons q qs)
  have p: "predictQueue hf r1 k q = predictQueue hf r2 k q"
    by (rule predictQueue_cong) (use Cons.prems in simp)
  have "forEachQueue hf r1 qs (k + 4) ps = forEachQueue hf r2 qs (k + 4) ps" for ps
    by (rule Cons.IH) (use Cons.prems in simp)
  then show ?case
    by (simp add: p)
qed

lemma loopBody_cong:
  assumes "\<forall>m. k \<le> m \<and> m < k + 4 * length (workQueues st) \<longrightarrow> random e1 m = random e2 m"
    and "now_ms e1 = now_ms e2" and "now_hours e1 = now_hours e2"
  shows "loopBody st e1 i k = loopBody st e2 i k"
  using forEachQueue_cong [OF assms(1)] assms(2,3)
  by (simp add: loopBody_def)

lemma loopBody_count:
  assumes "loopBody st env i k = Inr (en, k')"
  shows "k' = k + 4 * length (workQueues st)"
proof -
  have "k' = snd (forEachQueue (sin (real_of_int (i + now_hours env) * pi / 12) * 0.3 + 1)
                    (random env) (workQueues st) k [])"
    using assms by (auto simp: loopBody_def Let_def split: prod.splits sum.splits)
  then show ?thesis
    by (simp only: forEachQueue_count)
qed

lemma forecastLoop_cong:
  assumes "\<forall>m. k \<le> m \<and> m < k + 4 * length (workQueues st) * nat (hours - i) \<longrightarrow> random e1 m = random e2 m"
    and "now_ms e1 = now_ms e2" and "now_hours e1 = now_hours e2"
  shows "forecastLoop st e1 hours i k acc = forecastLoop st e2 hours i k acc"
  using assms
proof (induction st e1 hours i k acc rule: forecastLoop.induct)
  case (1 st e1 hours i k acc)
  let ?n = "length (workQueues st)"
  show ?case
  proof (cases "i < hours")
    case False
    then show ?thesis
      by (simp add: forecastLoop.simps [of st e1 hours i k acc]
          forecastLoop.simps [of st e2 hours i k acc])
  next
    case True
    have split: "nat (hours - i) = Suc (nat (hours - (i + 1)))"
      using True by simp
    have lb: "loopBody st e1 i k = loopBody st e2 i k"
    proof (rule loopBody_cong [OF _ "1.prems"(2,3)], intro allI impI)
      fix m assume "k \<le> m \<and> m < k + 4 * ?n"
      then have "k \<le> m \<and> m < k + 4 * ?n * nat (hours - i)"
        unfolding split by simp
      then show "random e1 m = random e2 m"
        using "1.prems"(1) by blast
    qed
    show ?thesis
    proof (cases "loopBody st e1 i k")
      case (Inl e)
      have l2: "loopBody st e2 i k = Inl e"
        using lb Inl by simp
      show ?thesis
        using True
        by (simp add: Inl l2 forecastLoop.simps [of st e1 hours i k acc]
            forecastLoop.simps [of st e2 hours i k acc])
    next
      case (Inr p)
      obtain en k' where p: "p = (en, k')" by (cases p)
      have k': "k' = k + 4 * ?n"
        using loopBody_count Inr p by blast
      have win: "\<forall>m. k' \<le> m \<and> m < k' + 4 * ?n * nat (hours - (i + 1)) \<longrightarrow> random e1 m = random e2 m"
      proof (intro allI impI)
        fix m assume "k' \<le> m \<and> m < k' + 4 * ?n * nat (hours - (i + 1))"
        then have "k \<le> m \<and> m < k + 4 * ?n * nat (hours - i)"
          unfolding split k' by simp
        then show "random e1 m = random e2 m"
          using "1.prems"(1) by blast
      qed
      have "forecastLoop st e1 hours (i + 1) k' (acc @ [en]) = forecastLoop st e2 hours (i + 1) k' (acc @ [en])"
        by (rule "1.IH" [OF True Inr [unfolded p] refl win "1.prems"(2,3)])
      moreover have "loopBody st e1 i k = Inr (en, k')" and "loopBody st e2 i k = Inr (en, k')"
        using lb Inr p by simp_all
      ultimately show ?thesis
        using True
        by (simp add: forecastLoop.simps [of st e1 hours i k acc]
            forecastLoop.simps [of st e2 hours i k acc])
    qed
  qed
qed


section \<open>Dependence on the work in progress\<close>

lemma predictQueue_mono:
  assumes "0 \<le> hf" and "0 < capacity q" and "workInProgress q \<le> w"
  shows "slaBreachProbability (predictQueue hf rnd k q)
           \<le> slaBreachProbability (predictQueue hf rnd k (q\<lparr> workInProgress := w \<rparr>))"
proof -
  have "workInProgress q / capacity q \<le> w / capacity q"
    using assms(2,3) by (simp add: divide_right_mono)
  then have "workInProgress q / capacity q * 100 * hf \<le> w / capacity q * 100 * hf"
    using assms(1) by (intro mult_right_mono) simp_all
  then have "workInProgress q / capacity q * 100 * hf + rnd k * 10
               \<le> w / capacity q * 100 * hf + rnd k * 10"
    by simp
  then have u: "min 100 (workInProgress q / capacity q * 100 * hf + rnd k * 10)
                  \<le> min 100 (w / capacity q * 100 * hf + rnd k * 10)"
    by (rule min.mono [OF order_refl])
  define a where "a = min 100 (workInProgress q / capacity q * 100 * hf + rnd k * 10)"
  define b where "b = min 100 (w / capacity q * 100 * hf + rnd k * 10)"
  have "a \<le> b"
    using u by (simp only: a_def b_def)
  then have "(a - 60) * 2 + rnd (k + 1) * 15 \<le> (b - 60) * 2 + rnd (k + 1) * 15"
    by simp
  then have "min 100 ((a - 60) * 2 + rnd (k + 1) * 15) \<le> min 100 ((b - 60) * 2 + rnd (k + 1) * 15)"
    by (rule min.mono [OF order_refl])
  then have "max 0 (min 100 ((a - 60) * 2 + rnd (k + 1) * 15))
               \<le> max 0 (min 100 ((b - 60) * 2 + rnd (k + 1) * 15))"
    by (rule max.mono [OF order_refl])
  moreover have "slaBreachProbability (predictQueue hf rnd k q)
                   = max 0 (min 100 ((a - 60) * 2 + rnd (k + 1) * 15))"
    by (simp add: predictQueue_def Let_def a_def)
  moreover have "slaBreachProbability (predictQueue hf rnd k (q\<lparr> workInProgress := w \<rparr>))
                   = max 0 (min 100 ((b - 60) * 2 + rnd (k + 1) * 15))"
    by (simp add: predictQueue_def Let_def b_def)
  ultimately show ?thesis
    by (simp only:)
qed

lemma raise_ids:
  "map id_wq (workQueues (raiseWorkInProgress st j w)) = map id_wq (workQueues st)"
proof (cases "j < length (workQueues st)")
  case True
  then show ?thesis
    by (simp add: raiseWorkInProgress_def map_update list_update_same_conv)
next
  case False
  then show ?thesis
    by (simp add: raiseWorkInProgress_def list_update_beyond)
qed

lemma raise_length:
  "length (workQueues (raiseWorkInProgress st j w)) = length (workQueues st)"
  by (simp add: raiseWorkInProgress_def)

lemma predictionsAt_raise:
  assumes "distinct (map id_wq (workQueues st))"
    and "j < length (workQueues st)"
    and "0 < capacity (workQueues st ! j)"
    and "workInProgress (workQueues st ! j) \<le> w"
  shows "list_all2 (\<lambda>(a, p) (b, p'). a = b \<and> slaBreachProbability p \<le> slaBreachProbability p')
           (predictionsAt st env i) (predictionsAt (raiseWorkInProgress st j w) env i)"
proof -
  let ?st' = "raiseWorkInProgress st j w"
  let ?n = "length (workQueues st)"
  have d': "distinct (map id_wq (workQueues ?st'))"
    using assms(1) by (simp only: raise_ids)
  have hf: "0 \<le> hourFactorAt env i"
    using hourFactorAt_bounds [of env i] by linarith
  have step: "id_wq (workQueues st ! m) = id_wq (workQueues ?st' ! m)
              \<and> slaBreachProbability (predictQueue (hourFactorAt env i) (random env) k (workQueues st ! m))
                 \<le> slaBreachProbability (predictQueue (hourFactorAt env i) (random env) k (workQueues ?st' ! m))"
    if m: "m < ?n" for m k
  proof (cases "m = j")
    case True
    then show ?thesis
      using assms(2) predictQueue_mono [OF hf assms(3,4), of "random env" k]
      by (simp add: raiseWorkInProgress_def)
  next
    case False
    then show ?thesis
      by (simp add: raiseWorkInProgress_def)
  qed
  show ?thesis
    unfolding predictionsAt_distinct [OF assms(1)] predictionsAt_distinct [OF d'] raise_length
    by (simp add: list_all2_conv_all_nth step)
qed


section \<open>Evaluation at the concrete environments\<close>

lemma envZero_fields:
  "load_ms envZero = 0" "now_ms envZero = 0" "now_hours envZero = 0" "end_ms envZero = 0"
  "random envZero k = 0"
  by (simp_all add: envZero_def)

lemma hourFactorAt_envZero_0: "hourFactorAt envZero 0 = 1"
  by (simp add: hourFactorAt_def envZero_fields)

lemma totalBreachRisk_envZero_0:
  "totalBreachRisk (entryAt (mockOperationalState t) envZero 0) = 35"
  by (simp add: entryAt_def Object_values_def predictionsAt_def hourFactorAt_envZero_0
      mockOperationalState_def predictQueue_def Let_def envZero_fields)

lemma datesInRange_envZero: "0 \<le> h \<Longrightarrow> h \<le> 1000 \<Longrightarrow> datesInRange envZero h"
  by (simp add: datesInRange_def envZero_fields maxTimeValue_def)

lemma envHalf_fields:
  "load_ms envHalf = 0" "now_ms envHalf = 0" "now_hours envHalf = 0" "end_ms envHalf = 0"
  "random envHalf k = 1 / 2"
  by (simp_all add: envHalf_def)

lemma envLate_fields:
  "load_ms envLate = 0" "now_ms envLate = 0" "now_hours envLate = 0" "end_ms envLate = 0"
  "random envLate k = (if k < 16 then 0 else 1 / 2)"
  by (simp_all add: envLate_def)

lemma utilization_envZero_0:
  "map (utilization \<circ> snd) (predictionsAt (mockOperationalState t) envZero 0) = [90, 100, 115 / 2, 24]"
  by (simp add: predictionsAt_def hourFactorAt_envZero_0 mockOperationalState_def predictQueue_def
      Let_def envZero_fields)

lemma hourFactorAt_envHalf_0: "hourFactorAt envHalf 0 = 1"
  by (simp add: hourFactorAt_def envHalf_fields)

lemma utilization_envHalf_0:
  "map (utilization \<circ> snd) (predictionsAt (mockOperationalState t) envHalf 0) = [95, 100, 125 / 2, 29]"
  by (simp add: predictionsAt_def hourFactorAt_envHalf_0 mockOperationalState_def predictQueue_def
      Let_def envHalf_fields)

lemma datesInRange_envHalf: "datesInRange envHalf 1"
  by (simp add: datesInRange_def envHalf_fields maxTimeValue_def)

lemma envTwo_fields:
  "load_ms envTwo = 0" "now_ms envTwo = 7200000" "now_hours envTwo = 2" "end_ms envTwo = 7200000"
  "random envTwo k = 0"
  by (simp_all add: envTwo_def)

lemma datesInRange_envTwo: "datesInRange envTwo 1"
  by (simp add: datesInRange_def envTwo_fields maxTimeValue_def)

lemma hourFactorAt_spec: "hourFactorAt env i = spec_intensityFactor (now_hours env) i"
  by (simp add: hourFactorAt_def spec_intensityFactor_def mult.commute)

lemma hourFactorAt_envTwo_0: "hourFactorAt envTwo 0 = 23 / 20"
proof -
  have "real_of_int (0 + now_hours envTwo) * pi / 12 = pi / 6"
    by (simp add: envTwo_fields)
  then have "hourFactorAt envTwo 0 = sin (pi / 6) * 0.3 + 1"
    by (simp only: hourFactorAt_def)
  then show ?thesis
    by (simp add: sin_30)
qed

lemma wip_envTwo_0:
  "map fst (predictionsAt (mockOperationalState t) envTwo 0)
     = [''intake'', ''review'', ''approval'', ''completion'']
   \<and> map (workInProgress_p \<circ> snd) (predictionsAt (mockOperationalState t) envTwo 0)
     = [52, 90, 26, 14]"
  by (simp add: predictionsAt_def hourFactorAt_envTwo_0 mockOperationalState_def predictQueue_def
      Let_def envTwo_fields Math_round_def)

lemma sqrt2_lower: "14 / 10 \<le> sqrt 2"
  by (rule real_le_rsqrt) (simp add: power2_eq_square)

lemma spec_intensityFactor_2_1: "spec_intensityFactor 2 1 = 1 + 0.3 * (sqrt 2 / 2)"
proof -
  have "pi * real_of_int (1 + 2) / 12 = pi / 4"
    by simp
  then have "spec_intensityFactor 2 1 = 1 + 0.3 * sin (pi / 4)"
    by (simp only: spec_intensityFactor_def)
  then show ?thesis
    by (simp add: sin_45)
qed

lemma spec_projectedWIP_review:
  assumes "0 \<le> noise" and "workInProgress q = 78"
  shows "91 \<le> spec_projectedWIP q 2 1 noise"
proof -
  have "(91 :: real) \<le> 78 * (1 + 0.3 * (sqrt 2 / 2)) + noise + 1 / 2"
    using sqrt2_lower assms(1) by simp
  then have "(91 :: int) \<le> \<lfloor>78 * (1 + 0.3 * (sqrt 2 / 2)) + noise + 1 / 2\<rfloor>"
    by (simp only: le_floor_iff of_int_numeral)
  then show ?thesis
    by (simp only: spec_projectedWIP_def Math_round_def spec_intensityFactor_2_1 assms(2))
qed


section \<open>The four queues of the module-level state\<close>

lemma mock_ids:
  "map id_wq (workQueues (mockOperationalState t)) = [''intake'', ''review'', ''approval'', ''completion'']"
  by (simp add: mockOperationalState_def)

lemma mock_length: "length (workQueues (mockOperationalState t)) = 4"
  by (simp add: mockOperationalState_def)

lemma mock_distinct: "distinct (map id_wq (workQueues (mockOperationalState t)))"
  by (simp add: mock_ids)


lemma mock_predictionsAt_keys:
  "map fst (predictionsAt (mockOperationalState t) env i)
     = [''intake'', ''review'', ''approval'', ''completion'']"
proof -
  let ?qs = "workQueues (mockOperationalState t)"
  have "map fst (predictionsAt (mockOperationalState t) env i) = map (\<lambda>j. id_wq (?qs ! j)) [0..<length ?qs]"
    by (simp add: predictionsAt_distinct [OF mock_distinct] comp_def)
  also have "\<dots> = map id_wq ?qs"
    by (rule nth_equalityI) simp_all
  finally show ?thesis
    by (simp only: mock_ids)
qed

lemma mock_predictionsAt_nth:
  assumes "j < 4"
  shows "predictionsAt (mockOperationalState t) env i ! j =
           (id_wq (workQueues (mockOperationalState t) ! j),
            predictQueue (hourFactorAt env i) (random env) (16 * nat i + 4 * j)
              (workQueues (mockOperationalState t) ! j))"
  using assms by (simp add: predictionsAt_distinct [OF mock_distinct] mock_length)

lemma mock_wip_values:
  "workInProgress (workQueues (mockOperationalState t) ! 0) = 45"
  "workInProgress (workQueues (mockOperationalState t) ! 1) = 78"
  "workInProgress (workQueues (mockOperationalState t) ! 2) = 23"
  "workInProgress (workQueues (mockOperationalState t) ! 3) = 12"
  by (simp_all add: mockOperationalState_def)

lemma Math_round_near: "\<bar>real_of_int (Math_round x) - x\<bar> \<le> 1 / 2"
proof -
  have "real_of_int \<lfloor>x + 1 / 2\<rfloor> \<le> x + 1 / 2" and "x + 1 / 2 < real_of_int \<lfloor>x + 1 / 2\<rfloor> + 1"
    by linarith+
  then show ?thesis
    unfolding Math_round_def by linarith
qed

lemma mock_wip_near:
  assumes "j < 4"
  shows "\<bar>real_of_int (workInProgress_p (snd (predictionsAt (mockOperationalState t) env i ! j)))
            - (workInProgress (workQueues (mockOperationalState t) ! j)
                 * spec_intensityFactor (now_hours env) i
               + 10 * random env (16 * nat i + 4 * j + 3))\<bar> \<le> 1 / 2"
proof -
  let ?q = "workQueues (mockOperationalState t) ! j"
  have "workInProgress_p (snd (predictionsAt (mockOperationalState t) env i ! j))
          = Math_round (workInProgress ?q * spec_intensityFactor (now_hours env) i
                          + 10 * random env (16 * nat i + 4 * j + 3))"
    by (simp add: mock_predictionsAt_nth [OF assms] predictQueue_def Let_def hourFactorAt_spec
        add.assoc mult.commute)
  then show ?thesis
    by (simp only: Math_round_near)
qed

lemma spec_intensityFactor_0_0: "spec_intensityFactor 0 0 = 1"
  by (simp add: spec_intensityFactor_def)

lemma int_near:
  assumes "\<bar>real_of_int a - real_of_int b\<bar> \<le> 1 / 2 + 1 / 1000"
  shows "a = b"
proof -
  have "\<bar>real_of_int (a - b)\<bar> < 1"
    using assms by simp
  then have "\<bar>a - b\<bar> < 1"
    by linarith
  then show ?thesis
    by simp
qed


section \<open>The claims\<close>

subsection \<open>C1: determinism\<close>

text \<open>
  Claim C1 says that two calls with the same inputs return identical responses, the
  noise coming from an explicit seed. The function has no seed argument: its noise is
  whatever \<^verbatim>\<open>Math.random()\<close> returns. Two calls with the same horizon 1 at the same
  clock, one drawing 0 every time and the other \<open>1/2\<close>, return different responses
  (utilizations 90, 100, 57.5, 24 against 95, 100, 62.5, 29).
\<close>

theorem determinism_counterexample:
  "load_ms envZero = load_ms envHalf \<and> now_ms envZero = now_ms envHalf
   \<and> now_hours envZero = now_hours envHalf \<and> end_ms envZero = end_ms envHalf
   \<and> map (map (utilization \<circ> snd) \<circ> predictions)
        (forecast (projr (generateMockForecast envZero 1))) = [[90, 100, 115 / 2, 24]]
   \<and> map (map (utilization \<circ> snd) \<circ> predictions)
        (forecast (projr (generateMockForecast envHalf 1))) = [[95, 100, 125 / 2, 29]]
   \<and> generateMockForecast envZero 1 \<noteq> generateMockForecast envHalf 1"
proof -
  have d0: "datesInRange envZero 1"
    by (simp add: datesInRange_envZero)
  have u0: "map (map (utilization \<circ> snd) \<circ> predictions)
        (forecast (projr (generateMockForecast envZero 1))) = [[90, 100, 115 / 2, 24]]"
    by (simp add: generateMockForecast_def generateMockForecastOn_returns [OF d0]
        predictions_entryAt utilization_envZero_0)
  have u1: "map (map (utilization \<circ> snd) \<circ> predictions)
        (forecast (projr (generateMockForecast envHalf 1))) = [[95, 100, 125 / 2, 29]]"
    by (simp add: generateMockForecast_def generateMockForecastOn_returns [OF datesInRange_envHalf]
        predictions_entryAt utilization_envHalf_0)
  have "generateMockForecast envZero 1 \<noteq> generateMockForecast envHalf 1"
  proof
    assume "generateMockForecast envZero 1 = generateMockForecast envHalf 1"
    with u0 u1 show False by simp
  qed
  with u0 u1 show ?thesis
    by (simp add: envZero_fields envHalf_fields)
qed

text \<open>
  Claim C1, amended: the function takes no seed; its response is determined by the
  horizon, the clock readings and the first \<open>16 * hours\<close> values returned by
  \<^verbatim>\<open>Math.random()\<close>. Two calls that agree on these have the same outcome (the same
  response, or the same exception).
\<close>

theorem same_draws_same_response:
  assumes "\<forall>k < 16 * nat hours. random env1 k = random env2 k"
    and "load_ms env1 = load_ms env2" and "now_ms env1 = now_ms env2"
    and "now_hours env1 = now_hours env2" and "end_ms env1 = end_ms env2"
  shows "generateMockForecast env1 hours = generateMockForecast env2 hours"
proof -
  let ?st = "mockOperationalState (load_ms env1)"
  have n: "length (workQueues ?st) = 4"
    by (simp add: mockOperationalState_def)
  have "\<forall>m. 0 \<le> m \<and> m < 0 + 4 * length (workQueues ?st) * nat (hours - 0) \<longrightarrow> random env1 m = random env2 m"
    using assms(1) by (simp add: n)
  then have loop: "forecastLoop ?st env1 hours 0 0 [] = forecastLoop ?st env2 hours 0 0 []"
    using assms(3,4) by (rule forecastLoop_cong)
  have "generateMockForecastOn ?st env1 hours = generateMockForecastOn ?st env2 hours"
    by (simp only: generateMockForecastOn_def loop assms(5))
  then show ?thesis
    by (simp only: generateMockForecast_def assms(2))
qed

theorem same_draws_same_response_witness:
  "random envZero 0 = random envLate 0 \<and> random envZero 15 = random envLate 15
   \<and> load_ms envZero = load_ms envLate \<and> now_ms envZero = now_ms envLate
   \<and> now_hours envZero = now_hours envLate \<and> end_ms envZero = end_ms envLate
   \<and> random envZero 16 \<noteq> random envLate 16
   \<and> generateMockForecast envZero 1 = generateMockForecast envLate 1"
proof -
  have h: "\<forall>k < 16 * nat 1. random envZero k = random envLate k"
    by (simp add: envZero_fields envLate_fields)
  from same_draws_same_response [of 1 envZero envLate] h show ?thesis
    by (simp add: envZero_fields envLate_fields)
qed


subsection \<open>C2: peak-risk metadata\<close>

text \<open>
  Claim C2 says that \<open>metadata.peakRiskValue\<close> is the maximum of the hourly
  \<open>totalBreachRisk\<close> and \<open>metadata.peakRiskHour\<close> the first hour attaining it. With
  the clock at hour 0 and every random number 0, a one-hour forecast has the single
  entry of hour 1 with total breach risk \<open>(60 + 80 + 0 + 0) / 4 = 35\<close>, while the
  metadata reports the value 58.2 at hour 4.
\<close>

theorem peak_metadata_counterexample:
  "\<not> isl (generateMockForecast envZero 1)
   \<and> map hour (forecast (projr (generateMockForecast envZero 1))) = [1]
   \<and> map totalBreachRisk (forecast (projr (generateMockForecast envZero 1))) = [35]
   \<and> spec_peakRiskValue (forecast (projr (generateMockForecast envZero 1))) = 35
   \<and> spec_peakRiskHour (forecast (projr (generateMockForecast envZero 1))) = Some 1
   \<and> peakRiskValue (metadata (projr (generateMockForecast envZero 1))) = 58.2
   \<and> peakRiskHour (metadata (projr (generateMockForecast envZero 1))) = 4"
proof -
  have d: "datesInRange envZero 1"
    by (simp add: datesInRange_envZero)
  have e: "hour (entryAt (mockOperationalState (load_ms envZero)) envZero 0) = 1"
    by (simp add: entryAt_def)
  show ?thesis
    by (simp add: generateMockForecast_def generateMockForecastOn_returns [OF d] mockMetadata_def
        totalBreachRisk_envZero_0 e spec_peakRiskValue_def spec_peakRiskHour_def)
qed

text \<open>
  Claim C2, amended: in every response \<open>metadata.peakRiskValue\<close> is the constant 58.2
  and \<open>metadata.peakRiskHour\<close> the constant 4, whatever the hourly total breach risks
  of the forecast are.
\<close>

theorem peak_metadata_constant:
  assumes "datesInRange env hours"
  shows "\<exists>r. generateMockForecast env hours = Inr r
           \<and> peakRiskValue (metadata r) = 58.2 \<and> peakRiskHour (metadata r) = 4"
  by (simp add: generateMockForecast_def generateMockForecastOn_returns [OF assms] mockMetadata_def)

theorem peak_metadata_constant_witness:
  "datesInRange envZero 1
   \<and> (\<exists>r. generateMockForecast envZero 1 = Inr r
          \<and> peakRiskValue (metadata r) = 58.2 \<and> peakRiskHour (metadata r) = 4)"
  using peak_metadata_constant [of envZero 1]
  by (simp add: datesInRange_def envZero_fields maxTimeValue_def)


subsection \<open>C3: constant suggestions and metadata\<close>

text \<open>
  Claim C3: for every horizon (and every clock and generator) the response carries the
  same three suggestions, in the order high for \<open>review\<close> with employee change \<open>+2\<close>,
  medium for \<open>approval\<close> with no resource change, low for \<open>completion\<close> with employee
  change \<open>-1\<close>, and the same metadata values \<open>averageBreachRisk = 32.5\<close>,
  \<open>peakRiskHour = 4\<close>, \<open>peakRiskValue = 58.2\<close>, \<open>resourceChangesApplied = 0\<close>,
  \<open>suggestionsGenerated = 3\<close>; none of them depends on the forecast.
\<close>

theorem suggestions_and_metadata_constant:
  assumes "datesInRange env hours"
  shows "\<exists>r. generateMockForecast env hours = Inr r
           \<and> suggestions r = mockSuggestions
           \<and> map (\<lambda>s. (severity s, queueId s, map_option employeeChange (resourceChange s)))
                (suggestions r)
               = [(High, ''review'', Some 2), (Medium, ''approval'', None),
                  (Low, ''completion'', Some (- 1))]
           \<and> averageBreachRisk (metadata r) = 32.5
           \<and> peakRiskHour (metadata r) = 4
           \<and> peakRiskValue (metadata r) = 58.2
           \<and> resourceChangesApplied (metadata r) = 0
           \<and> suggestionsGenerated (metadata r) = 3"
  by (simp add: generateMockForecast_def generateMockForecastOn_returns [OF assms] mockMetadata_def
      mockSuggestions_def)

theorem suggestions_and_metadata_constant_witness:
  "datesInRange envZero 8
   \<and> (\<exists>r. generateMockForecast envZero 8 = Inr r
          \<and> suggestions r = mockSuggestions
          \<and> averageBreachRisk (metadata r) = 32.5
          \<and> peakRiskHour (metadata r) = 4
          \<and> peakRiskValue (metadata r) = 58.2
          \<and> resourceChangesApplied (metadata r) = 0
          \<and> suggestionsGenerated (metadata r) = 3)"
proof -
  have d: "datesInRange envZero 8"
    by (simp add: datesInRange_def envZero_fields maxTimeValue_def)
  from suggestions_and_metadata_constant [OF d] d show ?thesis
    by blast
qed


subsection \<open>C4: horizon validation\<close>

text \<open>
  Claim C4 says that a call fails with \<open>InvalidHorizon\<close> exactly when the horizon is
  outside 1..24. The function has no such check: with horizon 0 it returns a response
  with an empty forecast, with horizon 25 a response with 25 entries.
\<close>

theorem horizon_validation_counterexample:
  "generateMockForecast envZero 0 =
     Inr \<lparr> forecast = [], suggestions = mockSuggestions, metadata = mockMetadata 0 0 \<rparr>
   \<and> generateMockForecast envZero 0 \<noteq> Inl InvalidHorizon
   \<and> \<not> isl (generateMockForecast envZero 25)
   \<and> length (forecast (projr (generateMockForecast envZero 25))) = 25
   \<and> generateMockForecast envZero 25 \<noteq> Inl InvalidHorizon"
proof -
  have d0: "datesInRange envZero 0" and d25: "datesInRange envZero 25"
    by (simp_all add: datesInRange_def envZero_fields maxTimeValue_def)
  show ?thesis
    by (simp add: generateMockForecast_def generateMockForecastOn_returns [OF d0]
        generateMockForecastOn_returns [OF d25] envZero_fields)
qed

text \<open>
  Claim C4, amended: no call fails with \<open>InvalidHorizon\<close>, whatever the horizon. When the
  clock readings and the last instant of the forecast are time values of \<^verbatim>\<open>Date\<close>, the
  call returns a response whose forecast has \<open>max 0 hours\<close> entries and whose
  \<open>forecastHours\<close> is the horizon as given; so no \<open>InvalidHorizon\<close> failure occurs for
  horizons in 1..24, and none for 0 or 25 either.
\<close>

theorem no_horizon_validation:
  "generateMockForecast env hours \<noteq> Inl InvalidHorizon
   \<and> (datesInRange env hours \<longrightarrow>
        (\<exists>r. generateMockForecast env hours = Inr r
           \<and> length (forecast r) = nat hours \<and> forecastHours (metadata r) = hours))"
proof
  show "generateMockForecast env hours \<noteq> Inl InvalidHorizon"
    using generateMockForecastOn_error [of "mockOperationalState (load_ms env)" env hours InvalidHorizon]
    by (auto simp: generateMockForecast_def)
next
  show "datesInRange env hours \<longrightarrow>
        (\<exists>r. generateMockForecast env hours = Inr r
           \<and> length (forecast r) = nat hours \<and> forecastHours (metadata r) = hours)"
    by (simp add: generateMockForecast_def generateMockForecastOn_returns mockMetadata_def)
qed

theorem no_horizon_validation_witness:
  "generateMockForecast envZero 25 \<noteq> Inl InvalidHorizon
   \<and> datesInRange envZero 25
   \<and> (\<exists>r. generateMockForecast envZero 25 = Inr r
          \<and> length (forecast r) = 25 \<and> forecastHours (metadata r) = 25)"
proof -
  have d: "datesInRange envZero 25"
    by (simp add: datesInRange_def envZero_fields maxTimeValue_def)
  from no_horizon_validation [of envZero 25] d show ?thesis
    by simp
qed


subsection \<open>C8: the load projector\<close>

text \<open>
  Claim C8 says that the entry of hour \<open>h\<close> (counted from 1) uses the factor
  \<open>1 + 0.3 * sin (pi * (h + currentHourOfDay) / 12)\<close>. The loop computes the factor
  from its counter \<open>i\<close>, which starts at 0, and labels the entry \<open>i + 1\<close>. At two
  o'clock with every random number 0, the entry of hour 1 projects
  \<open>round (78 * 1.15) = 90\<close> for the queue \<open>review\<close>; the formula of the claim gives
  at least 91 for every noise that is not negative.
\<close>

theorem load_projector_counterexample:
  "\<not> isl (generateMockForecast envTwo 1)
   \<and> map hour (forecast (projr (generateMockForecast envTwo 1))) = [1]
   \<and> map fst (predictions (forecast (projr (generateMockForecast envTwo 1)) ! 0))
       = [''intake'', ''review'', ''approval'', ''completion'']
   \<and> map (workInProgress_p \<circ> snd) (predictions (forecast (projr (generateMockForecast envTwo 1)) ! 0))
       = [52, 90, 26, 14]
   \<and> workInProgress (workQueues (mockOperationalState (load_ms envTwo)) ! 1) = 78
   \<and> \<not> (\<exists>noise. 0 \<le> noise \<and> noise \<le> 10
           \<and> spec_projectedWIP (workQueues (mockOperationalState (load_ms envTwo)) ! 1)
                (now_hours envTwo) 1 noise = 90)"
proof -
  let ?q = "workQueues (mockOperationalState (load_ms envTwo)) ! 1"
  have w: "workInProgress ?q = 78"
    by (simp add: mockOperationalState_def)
  have no: "\<not> (\<exists>noise. 0 \<le> noise \<and> noise \<le> 10 \<and> spec_projectedWIP ?q (now_hours envTwo) 1 noise = 90)"
  proof
    assume "\<exists>noise. 0 \<le> noise \<and> noise \<le> 10 \<and> spec_projectedWIP ?q (now_hours envTwo) 1 noise = 90"
    then obtain noise where "0 \<le> noise" and "spec_projectedWIP ?q 2 1 noise = 90"
      by (auto simp: envTwo_fields)
    with spec_projectedWIP_review [OF _ w, of noise] show False
      by simp
  qed
  have e: "hour (entryAt (mockOperationalState (load_ms envTwo)) envTwo 0) = 1"
    by (simp add: entryAt_def)
  show ?thesis
    using no w wip_envTwo_0 [of "load_ms envTwo"]
    by (simp add: generateMockForecast_def generateMockForecastOn_returns [OF datesInRange_envTwo]
        predictions_entryAt e)
qed

text \<open>
  Claim C8, amended: for each of the four queues (number \<open>j\<close> in the order of
  \<open>mockOperationalState\<close>) and every hour \<open>h\<close> in \<open>1..H\<close>, the factor used is
  \<open>1 + 0.3 * sin (pi * (h - 1 + currentHourOfDay) / 12)\<close> (the loop counter is
  0-based), the noise is 10 times the fourth random number drawn for that queue in
  that hour (number \<open>16 * (h - 1) + 4 * j + 3\<close> of the call), so \<open>0 \<le> noise < 10\<close>,
  and the projected work in progress is \<open>workInProgress * factor + noise\<close> rounded to
  a nearest integer: it differs from that value by at most \<open>1/2\<close>, up to the rounding
  error of doubles.
\<close>

theorem load_projector_zero_based:
  assumes "datesInRange env hours"
    and "\<forall>k. 0 \<le> random env k \<and> random env k < 1"
  shows "\<exists>r. generateMockForecast env hours = Inr r
           \<and> length (forecast r) = nat hours
           \<and> (\<forall>hf \<in> set (forecast r).
                 map fst (predictions hf) = [''intake'', ''review'', ''approval'', ''completion'']
                 \<and> (\<forall>j < 4.
                       0 \<le> 10 * random env (16 * nat (hour hf - 1) + 4 * j + 3)
                       \<and> 10 * random env (16 * nat (hour hf - 1) + 4 * j + 3) < 10
                       \<and> \<bar>real_of_int (workInProgress_p (snd (predictions hf ! j)))
                            - (workInProgress (workQueues (mockOperationalState (load_ms env)) ! j)
                                 * spec_intensityFactor (now_hours env) (hour hf - 1)
                               + 10 * random env (16 * nat (hour hf - 1) + 4 * j + 3))\<bar>
                           \<le> 1 / 2 + 1 / 1000))"
proof -
  let ?st = "mockOperationalState (load_ms env)"
  let ?P = "\<lambda>hf. map fst (predictions hf) = [''intake'', ''review'', ''approval'', ''completion'']
                 \<and> (\<forall>j < 4.
                       0 \<le> 10 * random env (16 * nat (hour hf - 1) + 4 * j + 3)
                       \<and> 10 * random env (16 * nat (hour hf - 1) + 4 * j + 3) < 10
                       \<and> \<bar>real_of_int (workInProgress_p (snd (predictions hf ! j)))
                            - (workInProgress (workQueues ?st ! j)
                                 * spec_intensityFactor (now_hours env) (hour hf - 1)
                               + 10 * random env (16 * nat (hour hf - 1) + 4 * j + 3))\<bar>
                           \<le> 1 / 2 + 1 / 1000)"
  have one: "?P (entryAt ?st env i)" for i
  proof (intro conjI allI impI)
    show "map fst (predictions (entryAt ?st env i)) = [''intake'', ''review'', ''approval'', ''completion'']"
      by (simp only: predictions_entryAt mock_predictionsAt_keys)
  next
    fix j :: nat assume j: "j < 4"
    have h: "hour (entryAt ?st env i) - 1 = i"
      by (simp add: entryAt_def)
    show "0 \<le> 10 * random env (16 * nat (hour (entryAt ?st env i) - 1) + 4 * j + 3)"
      using assms(2) by simp
    show "10 * random env (16 * nat (hour (entryAt ?st env i) - 1) + 4 * j + 3) < 10"
      using assms(2) by simp
    have "\<bar>real_of_int (workInProgress_p (snd (predictionsAt ?st env i ! j)))
            - (workInProgress (workQueues ?st ! j) * spec_intensityFactor (now_hours env) i
               + 10 * random env (16 * nat i + 4 * j + 3))\<bar> \<le> 1 / 2"
      by (rule mock_wip_near [OF j])
    then show "\<bar>real_of_int (workInProgress_p (snd (predictions (entryAt ?st env i) ! j)))
            - (workInProgress (workQueues ?st ! j)
                 * spec_intensityFactor (now_hours env) (hour (entryAt ?st env i) - 1)
               + 10 * random env (16 * nat (hour (entryAt ?st env i) - 1) + 4 * j + 3))\<bar>
           \<le> 1 / 2 + 1 / 1000"
      unfolding h predictions_entryAt by linarith
  qed
  have all: "\<forall>hf \<in> set (map (entryAt ?st env) [0..hours - 1]). ?P hf"
  proof
    fix hf assume "hf \<in> set (map (entryAt ?st env) [0..hours - 1])"
    then obtain i where hf: "hf = entryAt ?st env i"
      by auto
    show "?P hf"
      unfolding hf by (rule one)
  qed
  have "generateMockForecast env hours =
          Inr \<lparr> forecast = map (entryAt ?st env) [0..hours - 1],
                suggestions = mockSuggestions,
                metadata = mockMetadata hours (end_ms env) \<rparr>"
    by (simp only: generateMockForecast_def generateMockForecastOn_returns [OF assms(1)])
  moreover have "length (map (entryAt ?st env) [0..hours - 1]) = nat hours"
    by simp
  ultimately show ?thesis
    using all by (intro exI [of _ "\<lparr> forecast = map (entryAt ?st env) [0..hours - 1],
                suggestions = mockSuggestions,
                metadata = mockMetadata hours (end_ms env) \<rparr>"]) (simp del: set_map)
qed

theorem load_projector_zero_based_witness:
  "datesInRange envHalf 1
   \<and> (\<forall>k. 0 \<le> random envHalf k \<and> random envHalf k < 1)
   \<and> (\<exists>r. generateMockForecast envHalf 1 = Inr r
          \<and> map hour (forecast r) = [1]
          \<and> map (map fst \<circ> predictions) (forecast r)
               = [[''intake'', ''review'', ''approval'', ''completion'']]
          \<and> map (map (workInProgress_p \<circ> snd) \<circ> predictions) (forecast r) = [[50, 83, 28, 17]])"
proof -
  let ?st = "mockOperationalState 0"
  have st: "mockOperationalState (load_ms envHalf) = ?st"
    by (simp only: envHalf_fields)
  have r: "\<forall>k. 0 \<le> random envHalf k \<and> random envHalf k < 1"
    by (simp add: envHalf_fields)
  from load_projector_zero_based [OF datesInRange_envHalf r, unfolded st]
  obtain res where res: "generateMockForecast envHalf 1 = Inr res"
    and all: "\<forall>hf \<in> set (forecast res).
                 map fst (predictions hf) = [''intake'', ''review'', ''approval'', ''completion'']
                 \<and> (\<forall>j < 4.
                       0 \<le> 10 * random envHalf (16 * nat (hour hf - 1) + 4 * j + 3)
                       \<and> 10 * random envHalf (16 * nat (hour hf - 1) + 4 * j + 3) < 10
                       \<and> \<bar>real_of_int (workInProgress_p (snd (predictions hf ! j)))
                            - (workInProgress (workQueues ?st ! j)
                                 * spec_intensityFactor (now_hours envHalf) (hour hf - 1)
                               + 10 * random envHalf (16 * nat (hour hf - 1) + 4 * j + 3))\<bar>
                           \<le> 1 / 2 + 1 / 1000)"
    by blast
  let ?hf = "entryAt ?st envHalf 0"
  have "generateMockForecast envHalf 1 =
          Inr \<lparr> forecast = [?hf], suggestions = mockSuggestions,
                metadata = mockMetadata 1 (end_ms envHalf) \<rparr>"
    by (simp add: generateMockForecast_def generateMockForecastOn_returns [OF datesInRange_envHalf] st)
  then have fc: "forecast res = [?hf]"
    using res by auto
  have h: "hour ?hf = 1"
    by (simp add: entryAt_def)
  have mem: "?hf \<in> set (forecast res)"
    by (simp only: fc list.set_intros)
  have keys: "map fst (predictions ?hf) = [''intake'', ''review'', ''approval'', ''completion'']"
    using all mem by blast
  have near: "\<bar>real_of_int (workInProgress_p (snd (predictions ?hf ! j)))
                - (workInProgress (workQueues ?st ! j) * 1 + 10 * (1 / 2))\<bar> \<le> 1 / 2 + 1 / 1000"
    if "j < 4" for j
  proof -
    have "\<bar>real_of_int (workInProgress_p (snd (predictions ?hf ! j)))
            - (workInProgress (workQueues ?st ! j)
                 * spec_intensityFactor (now_hours envHalf) (hour ?hf - 1)
               + 10 * random envHalf (16 * nat (hour ?hf - 1) + 4 * j + 3))\<bar>
           \<le> 1 / 2 + 1 / 1000"
      using all mem that by blast
    then show ?thesis
      by (simp only: h envHalf_fields diff_self nat_zero_as_int [symmetric] spec_intensityFactor_0_0)
  qed
  have l: "length (predictions ?hf) = 4"
    using arg_cong [OF keys, of length] by simp
  have w0: "workInProgress_p (snd (predictions ?hf ! 0)) = 50"
    by (rule int_near) (use near [of 0, unfolded mock_wip_values] in simp)
  have w1: "workInProgress_p (snd (predictions ?hf ! 1)) = 83"
    by (rule int_near) (use near [of 1, unfolded mock_wip_values] in simp)
  have w2: "workInProgress_p (snd (predictions ?hf ! 2)) = 28"
    by (rule int_near) (use near [of 2, unfolded mock_wip_values] in simp)
  have w3: "workInProgress_p (snd (predictions ?hf ! 3)) = 17"
    by (rule int_near) (use near [of 3, unfolded mock_wip_values] in simp)
  obtain p0 p1 p2 p3 where ps: "predictions ?hf = [p0, p1, p2, p3]"
    using l by (auto simp: length_Suc_conv numeral_eq_Suc)
  have ws: "map (workInProgress_p \<circ> snd) (predictions ?hf) = [50, 83, 28, 17]"
    using w0 w1 w2 w3 unfolding ps by simp
  have c1: "map hour (forecast res) = [1]"
    and c2: "map (map fst \<circ> predictions) (forecast res)
           = [[''intake'', ''review'', ''approval'', ''completion'']]"
    and c3: "map (map (workInProgress_p \<circ> snd) \<circ> predictions) (forecast res) = [[50, 83, 28, 17]]"
    unfolding fc using h keys ws by simp_all
  show ?thesis
  proof (intro conjI exI [of _ res])
    show "datesInRange envHalf 1"
      by (rule datesInRange_envHalf)
    show "\<forall>k. 0 \<le> random envHalf k \<and> random envHalf k < 1"
      by (rule r)
    show "generateMockForecast envHalf 1 = Inr res"
      by (rule res)
    show "map hour (forecast res) = [1]"
      by (rule c1)
    show "map (map fst \<circ> predictions) (forecast res)
            = [[''intake'', ''review'', ''approval'', ''completion'']]"
      by (rule c2)
    show "map (map (workInProgress_p \<circ> snd) \<circ> predictions) (forecast res) = [[50, 83, 28, 17]]"
      by (rule c3)
  qed
qed


subsection \<open>C9: structure of the forecast\<close>

text \<open>
  Claim C9: the forecast for horizon \<open>H\<close> has exactly \<open>H\<close> entries, their hours are
  \<open>1..H\<close> in strictly increasing order, their timestamps are strictly increasing, and
  the timestamp of each entry is the start time plus \<open>hour * 3600\<close> seconds (3600000
  milliseconds). This holds for every \<open>H\<close>, in particular for \<open>H\<close> in 1..24; for
  \<open>H \<le> 0\<close> the forecast and \<open>[1..H]\<close> are empty.
\<close>

theorem forecast_structure:
  assumes "datesInRange env H"
  shows "\<exists>r. generateMockForecast env H = Inr r
           \<and> length (forecast r) = nat H
           \<and> map hour (forecast r) = [1..H]
           \<and> map timestamp (forecast r) = map (\<lambda>h. now_ms env + h * 3600000) [1..H]
           \<and> sorted_wrt (<) (map hour (forecast r))
           \<and> sorted_wrt (<) (map timestamp (forecast r))"
proof -
  let ?st = "mockOperationalState (load_ms env)"
  let ?fc = "map (entryAt ?st env) [0..H - 1]"
  have hours: "map hour ?fc = [1..H]"
    using upto_shift [of H] by (simp add: entryAt_def comp_def)
  have stamps: "map timestamp ?fc = map (\<lambda>h. now_ms env + h * 3600000) [1..H]"
    using arg_cong [OF upto_shift [of H], of "map (\<lambda>h. now_ms env + h * 3600000)"]
    by (simp add: entryAt_def comp_def)
  have s1: "sorted_wrt (<) (map hour ?fc)"
    unfolding hours by simp
  have s2: "sorted_wrt (<) (map timestamp ?fc)"
    unfolding stamps by (simp add: sorted_wrt_map sorted_wrt_mono_rel [OF _ sorted_wrt_upto])
  show ?thesis
    using hours stamps s1 s2
    by (simp add: generateMockForecast_def generateMockForecastOn_returns [OF assms])
qed

theorem forecast_structure_witness:
  "datesInRange envZero 8
   \<and> (\<exists>r. generateMockForecast envZero 8 = Inr r
          \<and> length (forecast r) = 8
          \<and> map hour (forecast r) = [1, 2, 3, 4, 5, 6, 7, 8]
          \<and> map timestamp (forecast r) =
              [3600000, 7200000, 10800000, 14400000, 18000000, 21600000, 25200000, 28800000])"
proof -
  have d: "datesInRange envZero 8"
    by (simp add: datesInRange_def envZero_fields maxTimeValue_def)
  have u: "[1..8] = [1, 2, 3, 4, 5, 6, 7, 8 :: int]"
    by code_simp
  from forecast_structure [OF d] d show ?thesis
    by (auto simp: u envZero_fields)
qed


subsection \<open>C5: the empty queue set\<close>




subsection \<open>C6: the aggregate risk\<close>

text \<open>
  Claim C6: for every hour of the forecast, \<open>totalBreachRisk\<close> is the sum of the
  breach probabilities of the predictions of that hour divided by their number, every
  queue weighing the same. The queue set of the function is the four-queue literal,
  every hour has its four predictions, and the source divides their sum by 4.
\<close>

theorem aggregate_risk_is_mean:
  assumes "datesInRange env hours"
  shows "\<exists>r. generateMockForecast env hours = Inr r
           \<and> length (forecast r) = nat hours
           \<and> (\<forall>hf \<in> set (forecast r).
                 map fst (predictions hf) = [''intake'', ''review'', ''approval'', ''completion'']
                 \<and> length (predictions hf) = 4
                 \<and> totalBreachRisk hf
                     = sum_list (map (slaBreachProbability \<circ> snd) (predictions hf))
                         / real (length (predictions hf)))"
proof -
  let ?st = "mockOperationalState (load_ms env)"
  let ?P = "\<lambda>hf. map fst (predictions hf) = [''intake'', ''review'', ''approval'', ''completion'']
                 \<and> length (predictions hf) = 4
                 \<and> totalBreachRisk hf
                     = sum_list (map (slaBreachProbability \<circ> snd) (predictions hf))
                         / real (length (predictions hf))"
  have one: "?P (entryAt ?st env i)" for i
  proof -
    have k: "map fst (predictions (entryAt ?st env i)) = [''intake'', ''review'', ''approval'', ''completion'']"
      by (simp only: predictions_entryAt mock_predictionsAt_keys)
    have "length (map fst (predictions (entryAt ?st env i))) = 4"
      by (simp only: k) simp
    then have l: "length (predictions (entryAt ?st env i)) = 4"
      by simp
    have t: "totalBreachRisk (entryAt ?st env i)
               = sum_list (map (slaBreachProbability \<circ> snd) (predictions (entryAt ?st env i)))
                   / real (length (predictions (entryAt ?st env i)))"
      unfolding l by (simp add: totalBreachRisk_entryAt)
    from k l t show ?thesis
      by (intro conjI)
  qed
  have all: "\<forall>hf \<in> set (map (entryAt ?st env) [0..hours - 1]). ?P hf"
  proof
    fix hf assume "hf \<in> set (map (entryAt ?st env) [0..hours - 1])"
    then obtain i where hf: "hf = entryAt ?st env i"
      by auto
    show "?P hf"
      unfolding hf by (rule one)
  qed
  have "generateMockForecast env hours =
          Inr \<lparr> forecast = map (entryAt ?st env) [0..hours - 1],
                suggestions = mockSuggestions,
                metadata = mockMetadata hours (end_ms env) \<rparr>"
    by (simp only: generateMockForecast_def generateMockForecastOn_returns [OF assms])
  moreover have "length (map (entryAt ?st env) [0..hours - 1]) = nat hours"
    by simp
  ultimately show ?thesis
    using all by (intro exI [of _ "\<lparr> forecast = map (entryAt ?st env) [0..hours - 1],
                suggestions = mockSuggestions,
                metadata = mockMetadata hours (end_ms env) \<rparr>"]) (simp del: set_map)
qed

theorem aggregate_risk_is_mean_witness:
  "datesInRange envZero 1
   \<and> (\<exists>r. generateMockForecast envZero 1 = Inr r
          \<and> length (forecast r) = 1
          \<and> map totalBreachRisk (forecast r) = [35]
          \<and> map (length \<circ> predictions) (forecast r) = [4]
          \<and> map (sum_list \<circ> map (slaBreachProbability \<circ> snd) \<circ> predictions) (forecast r) = [140])"
proof -
  have d: "datesInRange envZero 1"
    by (simp add: datesInRange_envZero)
  have f: "generateMockForecast envZero 1 =
             Inr \<lparr> forecast = [entryAt (mockOperationalState (load_ms envZero)) envZero 0],
                   suggestions = mockSuggestions, metadata = mockMetadata 1 (end_ms envZero) \<rparr>"
    by (simp add: generateMockForecast_def generateMockForecastOn_returns [OF d])
  from aggregate_risk_is_mean [OF d] d f show ?thesis
    by (auto simp: totalBreachRisk_envZero_0)
qed


subsection \<open>C7: clamping\<close>

text \<open>
  Claim C7: for valid inputs (work in progress not negative, capacity positive, random
  numbers not negative) every prediction has its utilization, its breach probability
  and its bottleneck probability between 0 and 100, and the call returns. The two
  probabilities are clamped on both sides; the utilization is capped at 100 and is
  not negative because none of its summands is.
\<close>

theorem clamping_invariant:
  assumes "datesInRange env hours"
    and "\<forall>k. 0 \<le> random env k"
    and "\<forall>q \<in> set (workQueues st). 0 \<le> workInProgress q \<and> 0 < capacity q"
  shows "\<exists>r. generateMockForecastOn st env hours = Inr r
           \<and> (\<forall>hf \<in> set (forecast r). \<forall>(qid, p) \<in> set (predictions hf).
                 0 \<le> utilization p \<and> utilization p \<le> 100
                 \<and> 0 \<le> slaBreachProbability p \<and> slaBreachProbability p \<le> 100
                 \<and> 0 \<le> bottleneckProbability p \<and> bottleneckProbability p \<le> 100)"
proof -
  let ?P = "\<lambda>p. 0 \<le> utilization p \<and> utilization p \<le> 100
                 \<and> 0 \<le> slaBreachProbability p \<and> slaBreachProbability p \<le> 100
                 \<and> 0 \<le> bottleneckProbability p \<and> bottleneckProbability p \<le> 100"
  have one: "\<forall>(qid, p) \<in> set (predictions (entryAt st env i)). ?P p" for i
  proof -
    have hf: "0 \<le> hourFactorAt env i"
      using hourFactorAt_bounds [of env i] by linarith
    have "\<forall>q \<in> set (workQueues st). \<forall>k. ?P (predictQueue (hourFactorAt env i) (random env) k q)"
      using predictQueue_bounds [OF hf] assms(2,3) by blast
    then show ?thesis
      unfolding predictions_entryAt predictionsAt_def
      by (intro forEachQueue_all) simp_all
  qed
  show ?thesis
    using one by (auto simp: generateMockForecastOn_returns [OF assms(1)])
qed

theorem clamping_invariant_witness:
  "datesInRange envZero 1
   \<and> (\<forall>k. 0 \<le> random envZero k)
   \<and> list_all (\<lambda>q. 0 \<le> workInProgress q \<and> 0 < capacity q)
         (workQueues (mockOperationalState (load_ms envZero)))
   \<and> (\<exists>r. generateMockForecast envZero 1 = Inr r
          \<and> forecast r \<noteq> []
          \<and> (\<forall>hf \<in> set (forecast r). predictions hf \<noteq> [] \<and> (\<forall>(qid, p) \<in> set (predictions hf).
                 0 \<le> utilization p \<and> utilization p \<le> 100
                 \<and> 0 \<le> slaBreachProbability p \<and> slaBreachProbability p \<le> 100
                 \<and> 0 \<le> bottleneckProbability p \<and> bottleneckProbability p \<le> 100)))"
proof -
  have d: "datesInRange envZero 1"
    by (simp add: datesInRange_envZero)
  have r: "\<forall>k. 0 \<le> random envZero k"
    by (simp add: envZero_fields)
  have q: "\<forall>q \<in> set (workQueues (mockOperationalState (load_ms envZero))).
             0 \<le> workInProgress q \<and> 0 < capacity q"
    by (simp add: mockOperationalState_def)
  have f: "generateMockForecast envZero 1 =
             Inr \<lparr> forecast = [entryAt (mockOperationalState (load_ms envZero)) envZero 0],
                   suggestions = mockSuggestions, metadata = mockMetadata 1 (end_ms envZero) \<rparr>"
    by (simp add: generateMockForecast_def generateMockForecastOn_returns [OF d])
  have n: "predictions (entryAt (mockOperationalState (load_ms envZero)) envZero 0) \<noteq> []"
    by (simp add: predictions_entryAt predictionsAt_def mockOperationalState_def)
  from clamping_invariant [OF d r q] d r q f n show ?thesis
    by (auto simp: generateMockForecast_def list_all_iff)
qed


subsection \<open>C10: load-risk monotonicity\<close>

text \<open>
  Claim C10: with the clock, the random numbers and every other input fixed, raising
  the work in progress of one queue (of positive capacity) lowers the breach
  probability of no queue at any hour: hour by hour the two forecasts carry the same
  queue ids in the same order, and each breach probability of the second is at least
  that of the first.
\<close>

theorem load_risk_monotone:
  assumes "datesInRange env hours"
    and "distinct (map id_wq (workQueues st))"
    and "j < length (workQueues st)"
    and "0 < capacity (workQueues st ! j)"
    and "workInProgress (workQueues st ! j) \<le> w"
  shows "\<exists>r r'. generateMockForecastOn st env hours = Inr r
           \<and> generateMockForecastOn (raiseWorkInProgress st j w) env hours = Inr r'
           \<and> list_all2
                (\<lambda>hf hf'. hour hf = hour hf'
                   \<and> list_all2 (\<lambda>(a, p) (b, p'). a = b
                        \<and> slaBreachProbability p \<le> slaBreachProbability p')
                       (predictions hf) (predictions hf'))
                (forecast r) (forecast r')"
proof -
  let ?st' = "raiseWorkInProgress st j w"
  have "list_all2
          (\<lambda>hf hf'. hour hf = hour hf'
             \<and> list_all2 (\<lambda>(a, p) (b, p'). a = b
                  \<and> slaBreachProbability p \<le> slaBreachProbability p')
                 (predictions hf) (predictions hf'))
          (map (entryAt st env) [0..hours - 1]) (map (entryAt ?st' env) [0..hours - 1])"
    using predictionsAt_raise [OF assms(2-5), of env]
    by (simp add: list_all2_map1 list_all2_map2 list_all2_same predictions_entryAt)
       (simp add: entryAt_def)
  then show ?thesis
    by (simp add: generateMockForecastOn_returns [OF assms(1)])
qed

theorem load_risk_monotone_witness:
  "datesInRange envZero 1
   \<and> distinct (map id_wq (workQueues (mockOperationalState 0)))
   \<and> (0 :: nat) < length (workQueues (mockOperationalState 0))
   \<and> 0 < capacity (workQueues (mockOperationalState 0) ! 0)
   \<and> workInProgress (workQueues (mockOperationalState 0) ! 0) \<le> 50
   \<and> (\<exists>r r'. generateMockForecastOn (mockOperationalState 0) envZero 1 = Inr r
          \<and> generateMockForecastOn (raiseWorkInProgress (mockOperationalState 0) 0 50) envZero 1 = Inr r'
          \<and> forecast r \<noteq> []
          \<and> list_all2
                (\<lambda>hf hf'. hour hf = hour hf'
                   \<and> list_all2 (\<lambda>(a, p) (b, p'). a = b
                        \<and> slaBreachProbability p \<le> slaBreachProbability p')
                       (predictions hf) (predictions hf'))
                (forecast r) (forecast r'))"
proof -
  let ?st = "mockOperationalState 0"
  have d: "datesInRange envZero 1"
    by (simp add: datesInRange_envZero)
  have q: "distinct (map id_wq (workQueues ?st))" and n: "(0 :: nat) < length (workQueues ?st)"
    and c: "0 < capacity (workQueues ?st ! 0)" and w: "workInProgress (workQueues ?st ! 0) \<le> 50"
    by (simp_all add: mockOperationalState_def)
  have f: "forecast (projr (generateMockForecastOn ?st envZero 1)) \<noteq> []"
    by (simp add: generateMockForecastOn_returns [OF d])
  from load_risk_monotone [OF d q n c w] f d q n c w show ?thesis
    by auto
qed

end
